theory Spec2Isabelle
  imports Main
begin

section \<open>Errors\<close>

text \<open>
  The exceptions the modelled code can raise, as values. \<open>KeyError\<close> is a dictionary
  lookup of an absent key, \<open>ValueError\<close> is what the imaging library raises for a colour
  it cannot parse or a box whose corners are the wrong way round, \<open>OSError\<close> is what it
  raises when the pixel data of a file cannot be decoded.
\<close>

datatype error = KeyError string | ValueError string | OSError string

section \<open>Raster images\<close>

text \<open>
  An RGB bitmap as the imaging library holds it: its size and its rows of pixels, row
  \<open>y\<close> at index \<open>y\<close>, the pixel of column \<open>x\<close> at index \<open>x\<close> of the row. A channel
  value is a number below 256.
\<close>

type_synonym rgb = "nat \<times> nat \<times> nat"

record image =
  img_width :: nat
  img_height :: nat
  rows :: "rgb list list"

text \<open>
  A bitmap the library hands out has as many rows as its height, each as long as its
  width. Opening a file whose header gives a width or height of zero is refused by the
  library, so an opened image has at least one pixel.
\<close>

definition wf_image :: "image \<Rightarrow> bool" where
  "wf_image im \<longleftrightarrow>
     0 < img_width im \<and> 0 < img_height im \<and>
     length (rows im) = img_height im \<and>
     list_all (\<lambda>r. length r = img_width im) (rows im)"

text \<open>Reading one pixel; \<open>None\<close> outside the bitmap.\<close>

definition getpixel :: "image \<Rightarrow> nat \<Rightarrow> nat \<Rightarrow> rgb option" where
  "getpixel im x y =
     (if y < length (rows im) \<and> x < length (rows im ! y) then Some (rows im ! y ! x)
      else None)"

definition blank :: "nat \<Rightarrow> nat \<Rightarrow> rgb \<Rightarrow> image" where
  "blank w h c = \<lparr>img_width = w, img_height = h, rows = replicate h (replicate w c)\<rparr>"

subsection \<open>Colour names\<close>

text \<open>
  The library turns a colour string into channel values. The frame table only uses the
  form \<open>#rrggbb\<close>, two hexadecimal digits for each of red, green and blue; the string is
  put in lower case first, so both cases of a digit are read.
\<close>

definition hexval :: "char \<Rightarrow> nat option" where
  "hexval c =
     (let n = of_char c :: nat in
      if 48 \<le> n \<and> n \<le> 57 then Some (n - 48)
      else if 97 \<le> n \<and> n \<le> 102 then Some (n - 87)
      else if 65 \<le> n \<and> n \<le> 70 then Some (n - 55)
      else None)"

definition hexpair :: "char \<Rightarrow> char \<Rightarrow> nat option" where
  "hexpair a b =
     (case (hexval a, hexval b) of
        (Some h, Some l) \<Rightarrow> Some (16 * h + l)
      | _ \<Rightarrow> None)"

fun getrgb :: "string \<Rightarrow> error + rgb" where
  "getrgb [h, r1, r2, g1, g2, b1, b2] =
     (if h = CHR ''#'' then
        (case (hexpair r1 r2, hexpair g1 g2, hexpair b1 b2) of
           (Some r, Some g, Some b) \<Rightarrow> Inr (r, g, b)
         | _ \<Rightarrow> Inl (ValueError ''unknown color specifier''))
      else Inl (ValueError ''unknown color specifier''))"
| "getrgb s = Inl (ValueError ''unknown color specifier'')"

subsection \<open>Filled rectangles\<close>

text \<open>
  \<open>draw.rectangle((x0, y0, x1, y1), fill=ink)\<close>: the box includes both corners, and
  the part of it outside the bitmap is clipped away. Coordinates are Python integers and
  may be negative. The library refuses a box with \<open>x1 < x0\<close> or \<open>y1 < y0\<close>.
\<close>

type_synonym box = "int \<times> int \<times> int \<times> int"

definition in_box :: "box \<Rightarrow> nat \<Rightarrow> nat \<Rightarrow> bool" where
  "in_box b x y =
     (case b of (x0, y0, x1, y1) \<Rightarrow> x0 \<le> int x \<and> int x \<le> x1 \<and> y0 \<le> int y \<and> int y \<le> y1)"

definition hline :: "rgb list \<Rightarrow> int \<Rightarrow> int \<Rightarrow> rgb \<Rightarrow> rgb list" where
  "hline row x0 x1 ink =
     map (\<lambda>(x, p). if x0 \<le> int x \<and> int x \<le> x1 then ink else p) (enumerate 0 row)"

definition fill_rows :: "rgb list list \<Rightarrow> box \<Rightarrow> rgb \<Rightarrow> rgb list list" where
  "fill_rows rs b ink =
     (case b of (x0, y0, x1, y1) \<Rightarrow>
        map (\<lambda>(y, row). if y0 \<le> int y \<and> int y \<le> y1 then hline row x0 x1 ink else row)
          (enumerate 0 rs))"

definition draw_rectangle :: "image \<Rightarrow> box \<Rightarrow> rgb \<Rightarrow> error + image" where
  "draw_rectangle im b ink =
     (case b of (x0, y0, x1, y1) \<Rightarrow>
        if x1 < x0 then Inl (ValueError ''x1 must be greater than or equal to x0'')
        else if y1 < y0 then Inl (ValueError ''y1 must be greater than or equal to y0'')
        else Inr (im\<lparr>rows := fill_rows (rows im) b ink\<rparr>))"

section \<open>The frame compositor\<close>

text \<open>The table \<open>frames\<close> of \<open>add_frame\<close>: each style name with its colour and width.\<close>

record frame =
  color :: string
  width :: int

definition frames :: "(string \<times> frame) list" where
  "frames =
     [(''Classic Wood'', \<lparr>color = ''#8B4513'', width = 40\<rparr>),
      (''Modern Black'', \<lparr>color = ''#1a1a1a'', width = 30\<rparr>),
      (''Silver Metal'', \<lparr>color = ''#C0C0C0'', width = 35\<rparr>)]"

text \<open>The four boxes \<open>add_frame\<close> draws, in the order it draws them.\<close>

definition top_box :: "int \<Rightarrow> int \<Rightarrow> int \<Rightarrow> box" where
  "top_box w h wd = (0, 0, w - 1, wd)"

definition bottom_box :: "int \<Rightarrow> int \<Rightarrow> int \<Rightarrow> box" where
  "bottom_box w h wd = (0, h - wd, w - 1, h - 1)"

definition left_box :: "int \<Rightarrow> int \<Rightarrow> int \<Rightarrow> box" where
  "left_box w h wd = (0, 0, wd, h - 1)"

definition right_box :: "int \<Rightarrow> int \<Rightarrow> int \<Rightarrow> box" where
  "right_box w h wd = (w - wd, 0, w - 1, h - 1)"

definition in_border :: "int \<Rightarrow> int \<Rightarrow> int \<Rightarrow> nat \<Rightarrow> nat \<Rightarrow> bool" where
  "in_border w h wd x y \<longleftrightarrow>
     in_box (top_box w h wd) x y \<or> in_box (bottom_box w h wd) x y \<or>
     in_box (left_box w h wd) x y \<or> in_box (right_box w h wd) x y"

definition then_draw :: "error + image \<Rightarrow> box \<Rightarrow> rgb \<Rightarrow> error + image" where
  "then_draw r b ink = (case r of Inl e \<Rightarrow> Inl e | Inr im \<Rightarrow> draw_rectangle im b ink)"

definition add_frame :: "image \<Rightarrow> string \<Rightarrow> error + image" where
  "add_frame img frame_style =
     (case map_of frames frame_style of
        None \<Rightarrow> Inl (KeyError frame_style)
      | Some fr \<Rightarrow>
          (case getrgb (color fr) of
             Inl e \<Rightarrow> Inl e
           | Inr ink \<Rightarrow>
               (let w = int (img_width img); h = int (img_height img); wd = width fr in
                then_draw (then_draw (then_draw
                  (draw_rectangle img (top_box w h wd) ink)
                  (bottom_box w h wd) ink)
                  (left_box w h wd) ink)
                  (right_box w h wd) ink)))"

subsection \<open>Images as they are opened\<close>

text \<open>
  \<open>Image.open\<close> reads the header of a file only; the pixel data is decoded when it is
  first needed. An opened image therefore carries the outcome its decoding will have: the
  bitmap, or the text of the exception for data that is cut short or damaged.
  \<open>image.copy()\<close> decodes before it copies, so that is where the exception is raised.
\<close>

record opened_image =
  pixel_data :: "string + image"

definition image_copy :: "opened_image \<Rightarrow> error + image" where
  "image_copy p = (case pixel_data p of Inl e \<Rightarrow> Inl (OSError e) | Inr bitmap \<Rightarrow> Inr bitmap)"

text \<open>
  \<open>add_frame\<close> called with an image as it was opened: the copy is its first step, and
  the rest is \<open>add_frame\<close> above on the copied bitmap.
\<close>

definition add_frame_opened :: "opened_image \<Rightarrow> string \<Rightarrow> error + image" where
  "add_frame_opened p frame_style =
     (case image_copy p of
        Inl e \<Rightarrow> Inl e
      | Inr framed_image \<Rightarrow> add_frame framed_image frame_style)"

section \<open>The prompt builder\<close>

text \<open>
  \<open>str.join\<close> and \<open>str.strip\<close>. Stripping removes the white space at both ends; the
  characters below are the white space of the ASCII range.
\<close>

fun join :: "string \<Rightarrow> string list \<Rightarrow> string" where
  "join sep [] = []"
| "join sep [x] = x"
| "join sep (x # y # ys) = x @ sep @ join sep (y # ys)"

definition isspace :: "char \<Rightarrow> bool" where
  "isspace c \<longleftrightarrow>
     c \<in> set [CHR 0x09, CHR 0x0A, CHR 0x0B, CHR 0x0C, CHR 0x0D,
               CHR 0x1C, CHR 0x1D, CHR 0x1E, CHR 0x1F, CHR 0x20]"

definition strip :: "string \<Rightarrow> string" where
  "strip s = rev (dropWhile isspace (rev (dropWhile isspace s)))"

definition newline :: string where
  "newline = [CHR 0x0A]"

definition quote :: string where
  "quote = [CHR 0x27]"

definition blue_shades :: "string list" where
  "blue_shades = [''dark blue'', ''medium blue'', ''light blue'']"

definition gray_shades :: "string list" where
  "gray_shades = [''dark gray'', ''medium gray'', ''light gray'']"

text \<open>
  The template of \<open>create_mandala_prompt\<close>, line by line as in the source: it opens with
  a line break, every line is indented by four blanks, the first and the third line end
  in a blank, and the closing quotes stand on an indented line of their own.
\<close>

definition create_mandala_prompt :: "string \<Rightarrow> string" where
  "create_mandala_prompt inspiration =
     strip (newline @
       ''    Create a beautiful, detailed mandala art inspired by the word '' @ quote @
         inspiration @ quote @ ''. '' @ newline @
       ''    The mandala should be centered, symmetrical, and intricate with a circular pattern.'' @ newline @
       ''    Use EXACTLY 3 shades of blue ('' @ join '', '' blue_shades @ '') '' @ newline @
       ''    and 3 shades of gray ('' @ join '', '' gray_shades @ '') only.'' @ newline @
       ''    The design should be spiritual and meditative with intricate patterns.'' @ newline @
       ''    Include subtle elements that relate to '' @ quote @ inspiration @ quote @
         '' in the mandala pattern.'' @ newline @
       ''    Make it high-contrast against a white background so all details are clearly visible.'' @ newline @
       ''    The mandala should be centered in the image with balanced composition.'' @ newline @
       ''    '')"

section \<open>The image provider client\<close>

text \<open>
  What the program does to the outside is recorded as a list of effects, in order: the
  request to the image service, the download of the asset, the notices shown on the
  page, the picture and the download link it renders, and a restart of the script.
\<close>

record image_request =
  model :: string
  prompt :: string
  size :: string
  quality :: string
  n :: nat

datatype effect =
    ImageCreate string image_request
  | HttpGet string
  | StError string
  | StSuccess string
  | StImage image string
  | DownloadLink image string string
  | Rerun

text \<open>
  The collaborators of \<open>generate_mandala_image\<close>. Each either raises, which is the
  text of the exception on the left, or gives its result: \<open>image_create\<close> the locator found
  at \<open>response['data'][0]['url']\<close> for an access key and a request, \<open>requests_get\<close> the
  bytes behind a locator, \<open>image_open\<close> the opened image, whose pixel data is not
  decoded yet.
\<close>

record provider =
  image_create :: "string \<Rightarrow> image_request \<Rightarrow> string + string"
  requests_get :: "string \<Rightarrow> string + string"
  image_open :: "string \<Rightarrow> string + opened_image"

text \<open>A provider all of whose files decode, to proper bitmaps.\<close>

definition good_provider :: "provider \<Rightarrow> bool" where
  "good_provider w \<longleftrightarrow>
     (\<forall>b img. image_open w b = Inr img \<longrightarrow> (\<exists>bitmap. pixel_data img = Inr bitmap \<and> wf_image bitmap))"

definition st_error :: "string \<Rightarrow> effect" where
  "st_error e = StError (''Error generating image: '' @ e)"

text \<open>
  \<open>generate_mandala_image\<close>: the whole body is inside \<open>try\<close>, so an exception of any of
  the three steps ends in the handler, which shows the notice and returns \<open>None\<close>. The
  third step opens the image and does not decode it: what is returned is the opened image.
\<close>

definition generate_mandala_image ::
  "provider \<Rightarrow> string \<Rightarrow> string \<Rightarrow> opened_image option \<times> effect list" where
  "generate_mandala_image w api_key p =
     (let req = \<lparr>model = ''dall-e-3'', prompt = p, size = ''1024x1024'',
                 quality = ''standard'', n = 1\<rparr>
      in case image_create w api_key req of
           Inl e \<Rightarrow> (None, [ImageCreate api_key req, st_error e])
         | Inr image_url \<Rightarrow>
             (case requests_get w image_url of
                Inl e \<Rightarrow> (None, [ImageCreate api_key req, HttpGet image_url, st_error e])
              | Inr content \<Rightarrow>
                  (case image_open w content of
                     Inl e \<Rightarrow> (None, [ImageCreate api_key req, HttpGet image_url, st_error e])
                   | Inr img \<Rightarrow> (Some img, [ImageCreate api_key req, HttpGet image_url]))))"

section \<open>Session state and the page script\<close>

record session_state =
  mandala_image :: "opened_image option"
  framed_images :: "(string \<times> image) list"
  selected_frame :: string

definition init_state :: session_state where
  "init_state = \<lparr>mandala_image = None, framed_images = [], selected_frame = ''Classic Wood''\<rparr>"

definition frame_names :: "string list" where
  "frame_names = [''Classic Wood'', ''Modern Black'', ''Silver Metal'']"

text \<open>
  The dictionary comprehension over the three names: the entries in the order of the
  names, or the first exception of \<open>add_frame\<close>, which is called with the image as
  the provider client returned it.
\<close>

fun build_frames :: "opened_image \<Rightarrow> string list \<Rightarrow> error + (string \<times> image) list" where
  "build_frames img [] = Inr []"
| "build_frames img (f # fs) =
     (case add_frame_opened img f of
        Inl e \<Rightarrow> Inl e
      | Inr framed \<Rightarrow>
          (case build_frames img fs of
             Inl e \<Rightarrow> Inl e
           | Inr rest \<Rightarrow> Inr ((f, framed) # rest)))"

text \<open>
  One run of the script has the values of the widgets as its input: the two text fields,
  whether the generate button was pressed, which select button was pressed if any, the
  clock, and the answers of the outside world.
\<close>

record datetime =
  year :: nat
  month :: nat
  day :: nat
  hour :: nat
  minute :: nat
  second :: nat

record inputs =
  api_key :: string
  inspiration :: string
  generate_button :: bool
  select_button :: "nat option"
  now :: datetime
  world :: provider

text \<open>
  A run gives the session state it leaves, its effects, and the exception that ended it
  if one did. What was assigned to the session state before an exception stays assigned.
\<close>

type_synonym outcome = "session_state \<times> effect list \<times> error option"

text \<open>
  The handler of the generate button in the side bar. A string counts as true when it is
  not empty, and an image object always counts as true.
\<close>

definition sidebar :: "inputs \<Rightarrow> session_state \<Rightarrow> outcome" where
  "sidebar i s =
     (if generate_button i \<and> inspiration i \<noteq> [] \<and> api_key i \<noteq> [] then
        (case generate_mandala_image (world i) (api_key i) (create_mandala_prompt (inspiration i)) of
           (None, eff) \<Rightarrow> (s, eff, None)
         | (Some img, eff) \<Rightarrow>
             (case build_frames img frame_names of
                Inl e \<Rightarrow> (s\<lparr>mandala_image := Some img\<rparr>, eff, Some e)
              | Inr fr \<Rightarrow>
                  (s\<lparr>mandala_image := Some img, framed_images := fr\<rparr>,
                   eff @ [StSuccess ''Mandala generated successfully!''], None)))
      else (s, [], None))"

text \<open>\<open>strftime('%Y%m%d_%H%M%S')\<close>, for the years of four digits a clock gives.\<close>

definition digit :: "nat \<Rightarrow> char" where
  "digit d = ''0123456789'' ! (d mod 10)"

definition is_digit :: "char \<Rightarrow> bool" where
  "is_digit c \<longleftrightarrow> c \<in> set ''0123456789''"

definition pad2 :: "nat \<Rightarrow> string" where
  "pad2 k = [digit (k div 10), digit k]"

definition pad4 :: "nat \<Rightarrow> string" where
  "pad4 k = [digit (k div 1000), digit (k div 100), digit (k div 10), digit k]"

definition strftime :: "datetime \<Rightarrow> string" where
  "strftime t =
     pad4 (year t) @ pad2 (month t) @ pad2 (day t) @ ''_'' @
     pad2 (hour t) @ pad2 (minute t) @ pad2 (second t)"

definition valid_datetime :: "datetime \<Rightarrow> bool" where
  "valid_datetime t \<longleftrightarrow>
     1000 \<le> year t \<and> year t \<le> 9999 \<and> 1 \<le> month t \<and> month t \<le> 12 \<and>
     1 \<le> day t \<and> day t \<le> 31 \<and> hour t < 24 \<and> minute t < 60 \<and> second t < 60"

text \<open>Reading a string of decimal digits as a number, as \<open>int\<close> does.\<close>

definition digit_value :: "char \<Rightarrow> nat" where
  "digit_value c = of_char c - 48"

definition decimal :: "string \<Rightarrow> nat" where
  "decimal ds = foldl (\<lambda>a c. 10 * a + digit_value c) 0 ds"

definition download_filename :: "string \<Rightarrow> datetime \<Rightarrow> string" where
  "download_filename word t = ''mandala_'' @ word @ ''_'' @ strftime t @ ''.png''"

definition frame_options :: "string list" where
  "frame_options = [''Classic Wood'', ''Modern Black'', ''Silver Metal'']"

definition caption :: "string \<Rightarrow> string \<Rightarrow> string" where
  "caption word fr = [CHR 0x22] @ word @ [CHR 0x22] @ '' Mandala with '' @ fr @ '' frame''"

text \<open>
  The main area. Without a stored image it shows the instructions only. With one it shows
  the entry of the selected frame, a missing entry being a \<open>KeyError\<close>; a pressed select
  button stores its frame name and restarts the script; otherwise the download link is
  built, its file name from the text field and the clock of this run.
\<close>

definition main_area :: "inputs \<Rightarrow> session_state \<Rightarrow> outcome" where
  "main_area i s =
     (case mandala_image s of
        None \<Rightarrow> (s, [], None)
      | Some _ \<Rightarrow>
          (case map_of (framed_images s) (selected_frame s) of
             None \<Rightarrow> (s, [], Some (KeyError (selected_frame s)))
           | Some shown \<Rightarrow>
               (let shown_eff = [StImage shown (caption (inspiration i) (selected_frame s))] in
                case select_button i of
                  Some k \<Rightarrow>
                    (if k < length frame_options
                     then (s\<lparr>selected_frame := frame_options ! k\<rparr>, shown_eff @ [Rerun], None)
                     else (s, shown_eff @
                             [DownloadLink shown (download_filename (inspiration i) (now i))
                                ''Download Mandala''], None))
                | None \<Rightarrow>
                    (s, shown_eff @
                       [DownloadLink shown (download_filename (inspiration i) (now i))
                          ''Download Mandala''], None))))"

definition script_run :: "inputs \<Rightarrow> session_state \<Rightarrow> outcome" where
  "script_run i s =
     (case sidebar i s of
        (s1, eff1, Some e) \<Rightarrow> (s1, eff1, Some e)
      | (s1, eff1, None) \<Rightarrow>
          (case main_area i s1 of (s2, eff2, r) \<Rightarrow> (s2, eff1 @ eff2, r)))"

text \<open>
  The session states a session can be in: the initial one, and what a run of the script
  leaves, whatever its inputs and whatever the outside world answers.
\<close>

inductive reachable :: "session_state \<Rightarrow> bool" where
  reachable_init: "reachable init_state"
| reachable_run: "reachable s \<Longrightarrow> script_run i s = (s', eff, r) \<Longrightarrow> reachable s'"

definition is_request :: "effect \<Rightarrow> bool" where
  "is_request e = (case e of ImageCreate _ _ \<Rightarrow> True | HttpGet _ \<Rightarrow> True | _ \<Rightarrow> False)"

definition is_error :: "effect \<Rightarrow> bool" where
  "is_error e = (case e of StError _ \<Rightarrow> True | _ \<Rightarrow> False)"

text \<open>
  The framed images belong to the stored image: none of either, or the framed images are
  what the comprehension builds from the stored image.
\<close>

definition frames_inv :: "session_state \<Rightarrow> bool" where
  "frames_inv s \<longleftrightarrow>
     (mandala_image s = None \<and> framed_images s = []) \<or>
     (\<exists>img. mandala_image s = Some img \<and> build_frames img frame_names = Inr (framed_images s))"

section \<open>Sample values\<close>

text \<open>
  A white bitmap and the opened image that decodes to it, an opened image whose data is
  cut short, a provider whose service refuses the request, a provider that serves the
  white image, a provider that serves the image cut short, a clock reading, and the inputs
  of a run in which the generate button or a select button is pressed.
\<close>

definition sample_image :: image where
  "sample_image = blank 64 48 (255, 255, 255)"

definition sample_opened :: opened_image where
  "sample_opened = \<lparr>pixel_data = Inr sample_image\<rparr>"

definition truncated_image :: opened_image where
  "truncated_image = \<lparr>pixel_data = Inl ''image file is truncated''\<rparr>"

definition failing_provider :: provider where
  "failing_provider =
     \<lparr>image_create = (\<lambda>k r. Inl ''quota exceeded''),
      requests_get = (\<lambda>u. Inl ''connection refused''),
      image_open = (\<lambda>b. Inl ''cannot identify image file'')\<rparr>"

definition serving_provider :: provider where
  "serving_provider =
     \<lparr>image_create = (\<lambda>k r. Inr ''https://images.example/1.png''),
      requests_get = (\<lambda>u. Inr ''PNG''),
      image_open = (\<lambda>b. Inr sample_opened)\<rparr>"

definition truncated_provider :: provider where
  "truncated_provider =
     \<lparr>image_create = (\<lambda>k r. Inr ''https://images.example/2.png''),
      requests_get = (\<lambda>u. Inr ''PNG''),
      image_open = (\<lambda>b. Inr truncated_image)\<rparr>"

definition sample_time :: datetime where
  "sample_time = \<lparr>year = 2025, month = 1, day = 5, hour = 9, minute = 3, second = 7\<rparr>"

definition press_generate :: "provider \<Rightarrow> string \<Rightarrow> string \<Rightarrow> inputs" where
  "press_generate w k word =
     \<lparr>api_key = k, inspiration = word, generate_button = True, select_button = None,
      now = sample_time, world = w\<rparr>"

definition press_select :: "nat \<Rightarrow> inputs" where
  "press_select k =
     \<lparr>api_key = ''sk-1'', inspiration = ''love'', generate_button = False,
      select_button = Some k, now = sample_time, world = failing_provider\<rparr>"

definition plain_run :: "string \<Rightarrow> datetime \<Rightarrow> inputs" where
  "plain_run word t =
     \<lparr>api_key = [], inspiration = word, generate_button = False, select_button = None,
      now = t, world = failing_provider\<rparr>"

definition sample_state :: session_state where
  "sample_state = fst (script_run (press_generate serving_provider ''sk-1'' ''love'') init_state)"

text \<open>
  The same button pressed when the served file is cut short: in a fresh session, and in
  the session that already holds the white image and its frames.
\<close>

definition first_truncated :: outcome where
  "first_truncated = script_run (press_generate truncated_provider ''sk-1'' ''love'') init_state"

definition later_truncated :: outcome where
  "later_truncated = script_run (press_generate truncated_provider ''sk-1'' ''joy'') sample_state"

section \<open>Properties of the drawing primitives\<close>

lemma getrgb_wood: "getrgb ''#8B4513'' = Inr (139, 69, 19)"
  by (simp add: hexpair_def hexval_def)

lemma getrgb_black: "getrgb ''#1a1a1a'' = Inr (26, 26, 26)"
  by (simp add: hexpair_def hexval_def)

lemma getrgb_silver: "getrgb ''#C0C0C0'' = Inr (192, 192, 192)"
  by (simp add: hexpair_def hexval_def)

lemma hline_length: "length (hline row x0 x1 ink) = length row"
  by (simp add: hline_def)

lemma hline_nth:
  "x < length row \<Longrightarrow> hline row x0 x1 ink ! x = (if x0 \<le> int x \<and> int x \<le> x1 then ink else row ! x)"
  by (simp add: hline_def nth_enumerate_eq)

lemma fill_rows_length: "length (fill_rows rs b ink) = length rs"
  by (simp add: fill_rows_def split: prod.splits)

lemma fill_rows_nth:
  "y < length rs \<Longrightarrow>
   fill_rows rs (x0, y0, x1, y1) ink ! y =
     (if y0 \<le> int y \<and> int y \<le> y1 then hline (rs ! y) x0 x1 ink else rs ! y)"
  by (simp add: fill_rows_def nth_enumerate_eq)

lemma fill_rows_row_length:
  "y < length rs \<Longrightarrow> length (fill_rows rs b ink ! y) = length (rs ! y)"
  by (cases b) (simp add: fill_rows_nth hline_length)

lemma getpixel_fill_rows:
  "getpixel (im\<lparr>rows := fill_rows (rows im) b ink\<rparr>) x y =
     map_option (\<lambda>p. if in_box b x y then ink else p) (getpixel im x y)"
  by (cases b) (auto simp: getpixel_def fill_rows_length fill_rows_nth hline_length hline_nth in_box_def)

lemma wf_image_fill_rows:
  "wf_image im \<Longrightarrow> wf_image (im\<lparr>rows := fill_rows (rows im) b ink\<rparr>)"
  by (auto simp: wf_image_def fill_rows_length list_all_length fill_rows_row_length)

lemma draw_rectangle_Inr:
  assumes "draw_rectangle im b ink = Inr out"
  shows "img_width out = img_width im" and "img_height out = img_height im"
    and "getpixel out x y = map_option (\<lambda>p. if in_box b x y then ink else p) (getpixel im x y)"
    and "wf_image im \<Longrightarrow> wf_image out"
  using assms
  by (auto simp: draw_rectangle_def getpixel_fill_rows wf_image_fill_rows split: prod.splits if_splits)

lemma draw_rectangle_defined:
  "x0 \<le> x1 \<Longrightarrow> y0 \<le> y1 \<Longrightarrow> \<exists>out. draw_rectangle im (x0, y0, x1, y1) ink = Inr out"
  by (simp add: draw_rectangle_def)

lemma add_frame_effect:
  assumes wf: "wf_image im" and fr: "map_of frames fs = Some fr"
    and ink: "getrgb (color fr) = Inr ink" and wd: "1 \<le> width fr"
  shows "\<exists>out. add_frame im fs = Inr out \<and> wf_image out \<and>
           img_width out = img_width im \<and> img_height out = img_height im \<and>
           (\<forall>x y. getpixel out x y =
              map_option (\<lambda>p. if in_border (int (img_width im)) (int (img_height im)) (width fr) x y
                               then ink else p) (getpixel im x y))"
proof -
  let ?w = "int (img_width im)" and ?h = "int (img_height im)" and ?wd = "width fr"
  from wf have pos: "0 < ?w" "0 < ?h" by (simp_all add: wf_image_def)
  obtain a where a: "draw_rectangle im (top_box ?w ?h ?wd) ink = Inr a"
    using draw_rectangle_defined[of 0 "?w - 1" 0 ?wd im ink] pos wd by (auto simp: top_box_def)
  obtain b where b: "draw_rectangle a (bottom_box ?w ?h ?wd) ink = Inr b"
    using draw_rectangle_defined[of 0 "?w - 1" "?h - ?wd" "?h - 1" a ink] pos wd
    by (auto simp: bottom_box_def)
  obtain c where c: "draw_rectangle b (left_box ?w ?h ?wd) ink = Inr c"
    using draw_rectangle_defined[of 0 ?wd 0 "?h - 1" b ink] pos wd by (auto simp: left_box_def)
  obtain d where d: "draw_rectangle c (right_box ?w ?h ?wd) ink = Inr d"
    using draw_rectangle_defined[of "?w - ?wd" "?w - 1" 0 "?h - 1" c ink] pos wd
    by (auto simp: right_box_def)
  have res: "add_frame im fs = Inr d"
    by (simp add: add_frame_def fr ink then_draw_def a b c d)
  have wfd: "wf_image d"
    using draw_rectangle_Inr(4)[OF d] draw_rectangle_Inr(4)[OF c]
      draw_rectangle_Inr(4)[OF b] draw_rectangle_Inr(4)[OF a] wf by blast
  have dims: "img_width d = img_width im" "img_height d = img_height im"
    by (simp_all add: draw_rectangle_Inr(1,2)[OF d] draw_rectangle_Inr(1,2)[OF c]
        draw_rectangle_Inr(1,2)[OF b] draw_rectangle_Inr(1,2)[OF a])
  have px: "getpixel d x y =
      map_option (\<lambda>p. if in_border ?w ?h ?wd x y then ink else p) (getpixel im x y)" for x y
    unfolding draw_rectangle_Inr(3)[OF d] draw_rectangle_Inr(3)[OF c]
      draw_rectangle_Inr(3)[OF b] draw_rectangle_Inr(3)[OF a]
    by (cases "getpixel im x y") (auto simp: in_border_def)
  show ?thesis using res wfd dims px by blast
qed

section \<open>The prompt\<close>

lemma lstrip_core:
  "\<not> isspace a \<Longrightarrow> list_all isspace l \<Longrightarrow> dropWhile isspace (l @ a # m) = a # m"
  by (induction l) auto

lemma strip_core:
  assumes "\<not> isspace a" "\<not> isspace z" "list_all isspace l" "list_all isspace r"
  shows "strip (l @ a # m @ z # r) = a # m @ [z]"
proof -
  have "dropWhile isspace (l @ a # m @ z # r) = a # m @ z # r"
    using assms(1,3) by (rule lstrip_core)
  moreover have "rev (a # m @ z # r) = rev r @ z # rev m @ [a]" by simp
  moreover have "dropWhile isspace (rev r @ z # rev m @ [a]) = z # rev m @ [a]"
    using assms(2,4) by (intro lstrip_core) (simp_all add: list_all_iff)
  ultimately show ?thesis by (simp add: strip_def)
qed

text \<open>
  C3: for every inspiration word, the empty one included, the prompt is the fixed template
  with the word at exactly two places, between the quotes after "inspired by the word" and
  between the quotes after "relate to", and it lists the three blue and the three gray
  shade names.
\<close>

theorem create_mandala_prompt_template:
  "create_mandala_prompt w =
     ''Create a beautiful, detailed mandala art inspired by the word '' @ quote @ w @ quote @
       ''. '' @ newline @
     ''    The mandala should be centered, symmetrical, and intricate with a circular pattern.'' @ newline @
     ''    Use EXACTLY 3 shades of blue (dark blue, medium blue, light blue) '' @ newline @
     ''    and 3 shades of gray (dark gray, medium gray, light gray) only.'' @ newline @
     ''    The design should be spiritual and meditative with intricate patterns.'' @ newline @
     ''    Include subtle elements that relate to '' @ quote @ w @ quote @
       '' in the mandala pattern.'' @ newline @
     ''    Make it high-contrast against a white background so all details are clearly visible.'' @ newline @
     ''    The mandala should be centered in the image with balanced composition.''
   \<and> blue_shades = [''dark blue'', ''medium blue'', ''light blue'']
   \<and> gray_shades = [''dark gray'', ''medium gray'', ''light gray'']
   \<and> length blue_shades = 3 \<and> length gray_shades = 3"
proof -
  let ?m = "''reate a beautiful, detailed mandala art inspired by the word '' @ quote @ w @ quote @
       ''. '' @ newline @
     ''    The mandala should be centered, symmetrical, and intricate with a circular pattern.'' @ newline @
     ''    Use EXACTLY 3 shades of blue (dark blue, medium blue, light blue) '' @ newline @
     ''    and 3 shades of gray (dark gray, medium gray, light gray) only.'' @ newline @
     ''    The design should be spiritual and meditative with intricate patterns.'' @ newline @
     ''    Include subtle elements that relate to '' @ quote @ w @ quote @
       '' in the mandala pattern.'' @ newline @
     ''    Make it high-contrast against a white background so all details are clearly visible.'' @ newline @
     ''    The mandala should be centered in the image with balanced composition''"
  have "create_mandala_prompt w
      = strip ((newline @ ''    '') @ CHR ''C'' # ?m @ CHR ''.'' # (newline @ ''    ''))"
    by (simp add: create_mandala_prompt_def blue_shades_def gray_shades_def)
  also have "\<dots> = CHR ''C'' # ?m @ [CHR ''.'']"
    by (rule strip_core) (simp_all add: isspace_def newline_def)
  finally show ?thesis
    by (simp add: blue_shades_def gray_shades_def)
qed

section \<open>The frame\<close>

lemma frames_lookup:
  "map_of frames ''Classic Wood'' = Some \<lparr>color = ''#8B4513'', width = 40\<rparr>"
  "map_of frames ''Modern Black'' = Some \<lparr>color = ''#1a1a1a'', width = 30\<rparr>"
  "map_of frames ''Silver Metal'' = Some \<lparr>color = ''#C0C0C0'', width = 35\<rparr>"
  by (simp_all add: frames_def)

lemma frame_names_cases:
  "fs \<in> set frame_names \<Longrightarrow>
     fs = ''Classic Wood'' \<or> fs = ''Modern Black'' \<or> fs = ''Silver Metal''"
  by (simp add: frame_names_def)

lemma frames_known:
  assumes "fs \<in> set frame_names"
  shows "\<exists>fr ink. map_of frames fs = Some fr \<and> getrgb (color fr) = Inr ink \<and> 1 \<le> width fr \<and>
           (fs, color fr, width fr, ink) \<in>
             {(''Classic Wood'', ''#8B4513'', 40, (139, 69, 19)),
              (''Modern Black'', ''#1a1a1a'', 30, (26, 26, 26)),
              (''Silver Metal'', ''#C0C0C0'', 35, (192, 192, 192))}"
  using frame_names_cases[OF assms]
  by (elim disjE) (simp_all add: frames_lookup hexpair_def hexval_def)

lemma in_border_iff:
  assumes "x < w" "y < h" "1 \<le> wd"
  shows "in_border (int w) (int h) wd x y \<longleftrightarrow>
           \<not> (wd < int x \<and> int x < int w - wd \<and> wd < int y \<and> int y < int h - wd)"
  using assms by (auto simp: in_border_def in_box_def top_box_def bottom_box_def left_box_def right_box_def)

lemma getpixel_inside:
  "wf_image im \<Longrightarrow> x < img_width im \<Longrightarrow> y < img_height im \<Longrightarrow>
     getpixel im x y = Some (rows im ! y ! x)"
  by (simp add: wf_image_def getpixel_def list_all_length)

lemma getpixel_blank:
  "x < w \<Longrightarrow> y < h \<Longrightarrow> getpixel (blank w h c) x y = Some c"
  by (simp add: getpixel_def blank_def)

lemma wf_image_blank: "0 < w \<Longrightarrow> 0 < h \<Longrightarrow> wf_image (blank w h c)"
  by (simp add: wf_image_def blank_def list_all_length)

text \<open>
  C1: for every image and each of the three frame styles, \<open>add_frame\<close> returns an image
  of the same width and height, and every pixel outside the four border boxes, that is,
  strictly inside the box they leave, is the pixel of the input.
\<close>

theorem add_frame_keeps_size_and_interior:
  assumes "wf_image im" and "frame_style \<in> set frame_names"
  shows "\<exists>out fr. map_of frames frame_style = Some fr \<and> add_frame im frame_style = Inr out \<and>
           img_width out = img_width im \<and> img_height out = img_height im \<and>
           (\<forall>x y. x < img_width im \<longrightarrow> y < img_height im \<longrightarrow>
                  \<not> in_border (int (img_width im)) (int (img_height im)) (width fr) x y \<longrightarrow>
                  getpixel out x y = getpixel im x y) \<and>
           (\<forall>x y. width fr < int x \<longrightarrow> int x < int (img_width im) - width fr \<longrightarrow>
                  width fr < int y \<longrightarrow> int y < int (img_height im) - width fr \<longrightarrow>
                  getpixel out x y = getpixel im x y)"
proof -
  from frames_known[OF assms(2)] obtain fr ink
    where fr: "map_of frames frame_style = Some fr" and ink: "getrgb (color fr) = Inr ink"
      and wd: "1 \<le> width fr" by blast
  from add_frame_effect[OF assms(1) fr ink wd] obtain out
    where out: "add_frame im frame_style = Inr out"
      and dims: "img_width out = img_width im" "img_height out = img_height im"
      and px: "\<And>x y. getpixel out x y =
          map_option (\<lambda>p. if in_border (int (img_width im)) (int (img_height im)) (width fr) x y
                           then ink else p) (getpixel im x y)"
    by blast
  have keep: "getpixel out x y = getpixel im x y"
    if "\<not> in_border (int (img_width im)) (int (img_height im)) (width fr) x y" for x y
    using that by (simp add: px option.map_ident)
  have inner: "getpixel out x y = getpixel im x y"
    if "width fr < int x" "int x < int (img_width im) - width fr"
       "width fr < int y" "int y < int (img_height im) - width fr" for x y
  proof -
    from that wd have "x < img_width im" "y < img_height im" by linarith+
    from in_border_iff[OF this wd] that keep show ?thesis by blast
  qed
  show ?thesis using fr out dims keep inner by blast
qed

theorem add_frame_keeps_size_and_interior_witness:
  "\<exists>out. add_frame (blank 100 90 (255, 255, 255)) ''Classic Wood'' = Inr out \<and>
         img_width out = 100 \<and> img_height out = 90 \<and>
         getpixel out 41 41 = Some (255, 255, 255) \<and> getpixel out 59 49 = Some (255, 255, 255)"
proof -
  have wf: "wf_image (blank 100 90 (255, 255, 255))" by (simp add: wf_image_blank)
  have nm: "''Classic Wood'' \<in> set frame_names" by (simp add: frame_names_def)
  from add_frame_keeps_size_and_interior[OF wf nm] obtain out fr
    where fr: "map_of frames ''Classic Wood'' = Some fr"
      and out: "add_frame (blank 100 90 (255, 255, 255)) ''Classic Wood'' = Inr out"
      and dims: "img_width out = img_width (blank 100 90 (255, 255, 255))"
         "img_height out = img_height (blank 100 90 (255, 255, 255))"
      and inner: "\<And>x y. width fr < int x \<Longrightarrow>
            int x < int (img_width (blank 100 90 (255, 255, 255))) - width fr \<Longrightarrow>
            width fr < int y \<Longrightarrow>
            int y < int (img_height (blank 100 90 (255, 255, 255))) - width fr \<Longrightarrow>
            getpixel out x y = getpixel (blank 100 90 (255, 255, 255)) x y"
    by blast
  from fr have wd: "width fr = 40" by (auto simp: frames_lookup)
  have "getpixel out 41 41 = Some (255, 255, 255)"
    using inner[of 41 41] by (simp add: wd blank_def getpixel_def)
  moreover have "getpixel out 59 49 = Some (255, 255, 255)"
    using inner[of 59 49] by (simp add: wd blank_def getpixel_def)
  ultimately show ?thesis using out dims by (simp add: blank_def)
qed

text \<open>
  C4: each of the three styles uses its pair of the table, brown \<open>#8B4513\<close> at 40,
  near-black \<open>#1a1a1a\<close> at 30, silver-gray \<open>#C0C0C0\<close> at 35, and every pixel that
  \<open>add_frame\<close> paints has exactly that colour: all pixels of the border boxes have it,
  and a pixel that differs from the input has it and lies in a border box.
\<close>

theorem add_frame_paints_configured_color:
  assumes "wf_image im" and "frame_style \<in> set frame_names"
  shows "\<exists>out fr ink. map_of frames frame_style = Some fr \<and> getrgb (color fr) = Inr ink \<and>
           (frame_style, color fr, width fr, ink) \<in>
             {(''Classic Wood'', ''#8B4513'', 40, (139, 69, 19)),
              (''Modern Black'', ''#1a1a1a'', 30, (26, 26, 26)),
              (''Silver Metal'', ''#C0C0C0'', 35, (192, 192, 192))} \<and>
           add_frame im frame_style = Inr out \<and>
           (\<forall>x y. x < img_width im \<longrightarrow> y < img_height im \<longrightarrow>
                  in_border (int (img_width im)) (int (img_height im)) (width fr) x y \<longrightarrow>
                  getpixel out x y = Some ink) \<and>
           (\<forall>x y. getpixel out x y \<noteq> getpixel im x y \<longrightarrow>
                  getpixel out x y = Some ink \<and>
                  in_border (int (img_width im)) (int (img_height im)) (width fr) x y)"
proof -
  from frames_known[OF assms(2)] obtain fr ink
    where fr: "map_of frames frame_style = Some fr" and ink: "getrgb (color fr) = Inr ink"
      and wd: "1 \<le> width fr"
      and tab: "(frame_style, color fr, width fr, ink) \<in>
             {(''Classic Wood'', ''#8B4513'', 40, (139, 69, 19)),
              (''Modern Black'', ''#1a1a1a'', 30, (26, 26, 26)),
              (''Silver Metal'', ''#C0C0C0'', 35, (192, 192, 192))}" by blast
  from add_frame_effect[OF assms(1) fr ink wd] obtain out
    where out: "add_frame im frame_style = Inr out"
      and px: "\<And>x y. getpixel out x y =
          map_option (\<lambda>p. if in_border (int (img_width im)) (int (img_height im)) (width fr) x y
                           then ink else p) (getpixel im x y)"
    by blast
  have painted: "getpixel out x y = Some ink"
    if "x < img_width im" "y < img_height im"
       "in_border (int (img_width im)) (int (img_height im)) (width fr) x y" for x y
    using getpixel_inside[OF assms(1) that(1,2)] that(3) by (auto simp: px)
  have changed: "getpixel out x y = Some ink \<and>
        in_border (int (img_width im)) (int (img_height im)) (width fr) x y"
    if "getpixel out x y \<noteq> getpixel im x y" for x y
    using that by (cases "getpixel im x y") (auto simp: px split: if_splits)
  show ?thesis using fr ink tab out painted changed by blast
qed

theorem add_frame_paints_configured_color_witness:
  "\<exists>out. add_frame (blank 100 90 (255, 255, 255)) ''Silver Metal'' = Inr out \<and>
         getpixel out 35 50 = Some (192, 192, 192) \<and> getpixel out 99 0 = Some (192, 192, 192)"
proof -
  have wf: "wf_image (blank 100 90 (255, 255, 255))" by (simp add: wf_image_blank)
  have nm: "''Silver Metal'' \<in> set frame_names" by (simp add: frame_names_def)
  from add_frame_paints_configured_color[OF wf nm] obtain out fr ink
    where fr: "map_of frames ''Silver Metal'' = Some fr" and ink: "getrgb (color fr) = Inr ink"
      and out: "add_frame (blank 100 90 (255, 255, 255)) ''Silver Metal'' = Inr out"
      and painted: "\<And>x y. x < img_width (blank 100 90 (255, 255, 255)) \<Longrightarrow>
            y < img_height (blank 100 90 (255, 255, 255)) \<Longrightarrow>
            in_border (int (img_width (blank 100 90 (255, 255, 255))))
              (int (img_height (blank 100 90 (255, 255, 255)))) (width fr) x y \<Longrightarrow>
            getpixel out x y = Some ink"
    by blast
  from fr have wd: "width fr = 35" and col: "color fr = ''#C0C0C0''"
    by (auto simp: frames_lookup)
  from ink have i: "ink = (192, 192, 192)" unfolding col getrgb_silver by simp
  have "getpixel out 35 50 = Some (192, 192, 192)"
    using painted[of 35 50]
    by (simp add: wd i blank_def in_border_def in_box_def top_box_def bottom_box_def left_box_def right_box_def)
  moreover have "getpixel out 99 0 = Some (192, 192, 192)"
    using painted[of 99 0]
    by (simp add: wd i blank_def in_border_def in_box_def top_box_def bottom_box_def left_box_def right_box_def)
  ultimately show ?thesis using out by blast
qed

text \<open>
  C2: the Modern Black frame on a white image of 1024 by 1024. The top and the left
  box reach from 0 to the width inclusive, so row 30 and column 30 are painted as well:
  the border is 31 pixels at the top and on the left and 30 at the bottom and on the
  right, and the untouched interior starts at 31 and ends at 993.
\<close>

theorem modern_black_on_white_1024:
  "\<exists>out. add_frame (blank 1024 1024 (255, 255, 255)) ''Modern Black'' = Inr out \<and>
         img_width out = 1024 \<and> img_height out = 1024 \<and>
         getpixel out 500 29 = Some (26, 26, 26) \<and>
         getpixel out 500 30 = Some (26, 26, 26) \<and>
         getpixel out 30 500 = Some (26, 26, 26) \<and>
         getpixel out 30 30 = Some (26, 26, 26) \<and>
         getpixel out 31 31 = Some (255, 255, 255) \<and>
         getpixel out 993 993 = Some (255, 255, 255) \<and>
         getpixel out 500 994 = Some (26, 26, 26) \<and>
         getpixel out 994 500 = Some (26, 26, 26)"
proof -
  let ?im = "blank 1024 1024 (255, 255, 255)"
  have wf: "wf_image ?im" by (simp add: wf_image_blank)
  have ink: "getrgb (color \<lparr>color = ''#1a1a1a'', width = 30\<rparr>) = Inr (26, 26, 26)"
    by (simp add: hexpair_def hexval_def)
  from add_frame_effect[OF wf frames_lookup(2) ink] obtain out
    where out: "add_frame ?im ''Modern Black'' = Inr out"
      and dims: "img_width out = img_width ?im" "img_height out = img_height ?im"
      and px: "\<And>x y. getpixel out x y =
          map_option (\<lambda>p. if in_border (int (img_width ?im)) (int (img_height ?im)) 30 x y
                           then (26, 26, 26) else p) (getpixel ?im x y)"
    by auto
  have w: "img_width ?im = 1024" "img_height ?im = 1024" by (simp_all add: blank_def)
  have px': "getpixel out x y = Some (if in_border 1024 1024 30 x y then (26, 26, 26) else (255, 255, 255))"
    if "x < 1024" "y < 1024" for x y
    using that by (simp add: px w getpixel_blank)
  show ?thesis
    using out dims
    by (simp add: w px' in_border_def in_box_def top_box_def bottom_box_def left_box_def right_box_def)
qed

section \<open>The provider client\<close>

lemma build_frames_truncated:
  "build_frames truncated_image frame_names = Inl (OSError ''image file is truncated'')"
  by (simp add: frame_names_def add_frame_opened_def image_copy_def truncated_image_def)

lemma generate_truncated:
  "generate_mandala_image truncated_provider k p =
     (Some truncated_image,
      [ImageCreate k \<lparr>model = ''dall-e-3'', prompt = p, size = ''1024x1024'',
                        quality = ''standard'', n = 1\<rparr>,
       HttpGet ''https://images.example/2.png''])"
  by (simp add: generate_mandala_image_def Let_def truncated_provider_def)

lemma sidebar_truncated:
  "k \<noteq> [] \<Longrightarrow> word \<noteq> [] \<Longrightarrow>
   sidebar (press_generate truncated_provider k word) s =
     (s\<lparr>mandala_image := Some truncated_image\<rparr>,
      [ImageCreate k \<lparr>model = ''dall-e-3'', prompt = create_mandala_prompt word,
                        size = ''1024x1024'', quality = ''standard'', n = 1\<rparr>,
       HttpGet ''https://images.example/2.png''],
      Some (OSError ''image file is truncated''))"
  by (simp add: sidebar_def press_generate_def generate_truncated build_frames_truncated)

lemma script_run_truncated:
  "k \<noteq> [] \<Longrightarrow> word \<noteq> [] \<Longrightarrow>
   script_run (press_generate truncated_provider k word) s =
     (s\<lparr>mandala_image := Some truncated_image\<rparr>,
      [ImageCreate k \<lparr>model = ''dall-e-3'', prompt = create_mandala_prompt word,
                        size = ''1024x1024'', quality = ''standard'', n = 1\<rparr>,
       HttpGet ''https://images.example/2.png''],
      Some (OSError ''image file is truncated''))"
  by (simp add: script_run_def sidebar_truncated)

text \<open>
  C6: a served file whose header is sound and whose pixel data is cut short. The third
  step of \<open>generate_mandala_image\<close> opens it without decoding it, so the function returns
  the opened image and shows no error notice. The decoding error is raised by the copy
  at the start of \<open>add_frame\<close>, which the handler of the generate button calls outside
  the \<open>try\<close>: the run of the script ends with that exception and without a notice.
\<close>

theorem generate_mandala_image_truncated:
  "generate_mandala_image truncated_provider k p =
     (Some truncated_image,
      [ImageCreate k \<lparr>model = ''dall-e-3'', prompt = p, size = ''1024x1024'',
                        quality = ''standard'', n = 1\<rparr>,
       HttpGet ''https://images.example/2.png'']) \<and>
   filter is_error (snd (generate_mandala_image truncated_provider k p)) = [] \<and>
   image_copy truncated_image = Inl (OSError ''image file is truncated'') \<and>
   add_frame_opened truncated_image ''Classic Wood'' = Inl (OSError ''image file is truncated'') \<and>
   snd (snd first_truncated) = Some (OSError ''image file is truncated'') \<and>
   filter is_error (fst (snd first_truncated)) = []"
  by (simp add: generate_truncated is_error_def add_frame_opened_def image_copy_def
      truncated_image_def first_truncated_def script_run_truncated)

lemma generate_None_error:
  "generate_mandala_image w k p = (None, eff) \<Longrightarrow> \<exists>e. st_error e \<in> set eff"
  by (auto simp: generate_mandala_image_def Let_def split: sum.splits)

lemma generate_Some_wf:
  "good_provider w \<Longrightarrow> generate_mandala_image w k p = (Some img, eff) \<Longrightarrow>
     \<exists>bitmap. pixel_data img = Inr bitmap \<and> wf_image bitmap"
  by (auto simp: generate_mandala_image_def Let_def good_provider_def split: sum.splits)

section \<open>The session\<close>

lemma main_area_keeps:
  "mandala_image (fst (main_area i s)) = mandala_image s"
  "framed_images (fst (main_area i s)) = framed_images s"
  by (simp_all add: main_area_def Let_def split: option.splits)

lemma main_area_no_select:
  "select_button i = None \<Longrightarrow> fst (main_area i s) = s"
  by (simp add: main_area_def Let_def split: option.splits)

lemma main_area_no_request: "filter is_request (fst (snd (main_area i s))) = []"
  by (simp add: main_area_def Let_def is_request_def split: option.splits)

lemma sidebar_selected: "selected_frame (fst (sidebar i s)) = selected_frame s"
  by (simp add: sidebar_def split: option.splits sum.splits prod.splits)

lemma sidebar_idle:
  "\<not> (generate_button i \<and> inspiration i \<noteq> [] \<and> api_key i \<noteq> []) \<Longrightarrow> sidebar i s = (s, [], None)"
  by (auto simp: sidebar_def)

lemma script_run_state:
  "fst (script_run i s) =
     (case sidebar i s of (s1, eff1, Some e) \<Rightarrow> s1 | (s1, eff1, None) \<Rightarrow> fst (main_area i s1))"
  by (simp add: script_run_def split: prod.splits option.splits)

lemma script_run_idle:
  "\<not> (generate_button i \<and> inspiration i \<noteq> [] \<and> api_key i \<noteq> []) \<Longrightarrow>
     script_run i s = main_area i s"
  by (simp add: script_run_def sidebar_idle split: prod.splits)

lemma sidebar_failed:
  assumes "generate_mandala_image (world i) (api_key i) (create_mandala_prompt (inspiration i)) = (None, eff)"
    and "generate_button i" "inspiration i \<noteq> []" "api_key i \<noteq> []"
  shows "sidebar i s = (s, eff, None)"
  using assms by (simp add: sidebar_def)

text \<open>
  C5: when the generate button is pressed and the provider client returns no image, the
  handler leaves the session state as it was, whatever image and framed images it held,
  the run as a whole keeps the stored image and every framed image, and the error notice
  is among the effects.
\<close>

theorem failed_generation_keeps_state:
  assumes "generate_mandala_image (world i) (api_key i) (create_mandala_prompt (inspiration i)) = (None, eff)"
    and "generate_button i" "inspiration i \<noteq> []" "api_key i \<noteq> []"
  shows "sidebar i s = (s, eff, None) \<and> (\<exists>e. StError (''Error generating image: '' @ e) \<in> set eff) \<and>
         mandala_image (fst (script_run i s)) = mandala_image s \<and>
         framed_images (fst (script_run i s)) = framed_images s \<and>
         (\<exists>e. StError (''Error generating image: '' @ e) \<in> set (fst (snd (script_run i s))))"
proof -
  have sb: "sidebar i s = (s, eff, None)" by (rule sidebar_failed[OF assms])
  from generate_None_error[OF assms(1)] obtain e where e: "st_error e \<in> set eff" by blast
  have st: "fst (script_run i s) = fst (main_area i s)"
    by (simp add: script_run_state sb)
  have ef: "set eff \<subseteq> set (fst (snd (script_run i s)))"
    by (auto simp: script_run_def sb split: prod.splits)
  show ?thesis using sb e st ef main_area_keeps[of i s] by (auto simp: st_error_def)
qed


lemma add_frame_defined:
  assumes "wf_image im" and "fs \<in> set frame_names"
  shows "\<exists>out. add_frame im fs = Inr out"
proof -
  from frames_known[OF assms(2)] obtain fr ink
    where "map_of frames fs = Some fr" "getrgb (color fr) = Inr ink" "1 \<le> width fr" by blast
  from add_frame_effect[OF assms(1) this] show ?thesis by blast
qed

lemma add_frame_opened_decoded:
  "pixel_data img = Inr bitmap \<Longrightarrow> add_frame_opened img f = add_frame bitmap f"
  by (simp add: add_frame_opened_def image_copy_def)

lemma build_frames_entries:
  "build_frames img ns = Inr fr \<Longrightarrow>
     map fst fr = ns \<and> (\<forall>(f, framed) \<in> set fr. add_frame_opened img f = Inr framed)"
  by (induction ns arbitrary: fr) (auto split: sum.splits)

lemma build_frames_defined:
  "pixel_data img = Inr bitmap \<Longrightarrow> wf_image bitmap \<Longrightarrow> set ns \<subseteq> set frame_names \<Longrightarrow>
     \<exists>fr. build_frames img ns = Inr fr"
proof (induction ns)
  case Nil
  then show ?case by simp
next
  case (Cons f fs)
  from Cons.prems have "f \<in> set frame_names" by simp
  from add_frame_defined[OF Cons.prems(2) this]
  obtain out where "add_frame_opened img f = Inr out"
    by (auto simp: add_frame_opened_decoded[OF Cons.prems(1)])
  moreover from Cons obtain rest where "build_frames img fs = Inr rest" by auto
  ultimately show ?case by simp
qed

text \<open>
  Runs whose served files all decode keep the framed images with the stored image.
\<close>

lemma sidebar_inv:
  assumes "frames_inv s" "good_provider (world i)"
  shows "frames_inv (fst (sidebar i s)) \<and> snd (snd (sidebar i s)) = None"
proof (cases "generate_button i \<and> inspiration i \<noteq> [] \<and> api_key i \<noteq> []")
  case False
  then show ?thesis using assms(1) by (simp add: sidebar_idle)
next
  case True
  obtain r eff where g: "generate_mandala_image (world i) (api_key i)
      (create_mandala_prompt (inspiration i)) = (r, eff)" by (cases "generate_mandala_image (world i) (api_key i)
      (create_mandala_prompt (inspiration i))")
  show ?thesis
  proof (cases r)
    case None
    with True g assms(1) show ?thesis by (simp add: sidebar_def)
  next
    case (Some img)
    with g assms(2) obtain bitmap where "pixel_data img = Inr bitmap" "wf_image bitmap"
      by (auto dest: generate_Some_wf)
    from build_frames_defined[OF this subset_refl] obtain fr
      where "build_frames img frame_names = Inr fr" by blast
    with True g Some show ?thesis by (simp add: sidebar_def frames_inv_def)
  qed
qed

lemma main_area_inv: "frames_inv s \<Longrightarrow> frames_inv (fst (main_area i s))"
  by (simp add: frames_inv_def main_area_keeps)

lemma script_run_inv:
  assumes "frames_inv s" "good_provider (world i)"
  shows "frames_inv (fst (script_run i s))"
proof -
  obtain s1 eff1 where sb: "sidebar i s = (s1, eff1, None)"
    using sidebar_inv[OF assms] by (cases "sidebar i s") auto
  with sidebar_inv[OF assms] have "frames_inv s1" by simp
  then show ?thesis by (simp add: script_run_state sb main_area_inv)
qed

subsection \<open>A session with a stored image\<close>

lemma wf_sample_image: "wf_image sample_image"
  by (simp add: sample_image_def wf_image_blank)

lemma good_serving_provider: "good_provider serving_provider"
  by (simp add: good_provider_def serving_provider_def sample_opened_def wf_sample_image)

lemma generate_serving:
  "\<exists>eff. generate_mandala_image serving_provider k p = (Some sample_opened, eff)"
  by (simp add: generate_mandala_image_def Let_def serving_provider_def)

lemma sidebar_success:
  assumes "generate_mandala_image (world i) (api_key i) (create_mandala_prompt (inspiration i)) = (Some img, eff)"
    and "generate_button i" "inspiration i \<noteq> []" "api_key i \<noteq> []"
    and "pixel_data img = Inr bitmap" "wf_image bitmap"
  shows "\<exists>fr. build_frames img frame_names = Inr fr \<and>
           sidebar i s = (s\<lparr>mandala_image := Some img, framed_images := fr\<rparr>,
                          eff @ [StSuccess ''Mandala generated successfully!''], None)"
proof -
  from build_frames_defined[OF assms(5,6) subset_refl] obtain fr
    where "build_frames img frame_names = Inr fr" by blast
  with assms(1-4) show ?thesis by (simp add: sidebar_def)
qed

lemma sample_state_image: "mandala_image sample_state = Some sample_opened"
proof -
  let ?i = "press_generate serving_provider ''sk-1'' ''love''"
  have px: "pixel_data sample_opened = Inr sample_image" by (simp add: sample_opened_def)
  from generate_serving obtain eff where
    "generate_mandala_image (world ?i) (api_key ?i) (create_mandala_prompt (inspiration ?i))
       = (Some sample_opened, eff)"
    by (auto simp: press_generate_def)
  from sidebar_success[OF this _ _ _ px wf_sample_image, of init_state] obtain fr
    where "sidebar ?i init_state = (init_state\<lparr>mandala_image := Some sample_opened, framed_images := fr\<rparr>,
                          eff @ [StSuccess ''Mandala generated successfully!''], None)"
    by (auto simp: press_generate_def)
  then show ?thesis
    by (simp add: sample_state_def script_run_state main_area_keeps)
qed

lemma reachable_sample_state: "reachable sample_state"
proof -
  let ?i = "press_generate serving_provider ''sk-1'' ''love''"
  from reachable_run[OF reachable_init, of ?i "fst (script_run ?i init_state)"
      "fst (snd (script_run ?i init_state))" "snd (snd (script_run ?i init_state))"]
  show ?thesis by (simp add: sample_state_def)
qed

lemma sample_state_frames:
  "build_frames sample_opened frame_names = Inr (framed_images sample_state)"
proof -
  have "frames_inv init_state" by (simp add: frames_inv_def init_state_def)
  moreover have "good_provider (world (press_generate serving_provider ''sk-1'' ''love''))"
    by (simp add: press_generate_def good_serving_provider)
  ultimately have "frames_inv sample_state"
    unfolding sample_state_def by (rule script_run_inv)
  then show ?thesis by (simp add: frames_inv_def sample_state_image)
qed

lemma sample_state_keys: "map fst (framed_images sample_state) = frame_names"
  using build_frames_entries[OF sample_state_frames] by simp

lemma sample_state_entries:
  "\<exists>a b c. framed_images sample_state =
             [(''Classic Wood'', a), (''Modern Black'', b), (''Silver Metal'', c)] \<and>
     add_frame sample_image ''Classic Wood'' = Inr a \<and>
     add_frame sample_image ''Modern Black'' = Inr b \<and>
     add_frame sample_image ''Silver Metal'' = Inr c"
proof -
  have px: "pixel_data sample_opened = Inr sample_image" by (simp add: sample_opened_def)
  from build_frames_entries[OF sample_state_frames]
  have keys: "map fst (framed_images sample_state) = [''Classic Wood'', ''Modern Black'', ''Silver Metal'']"
    and ent: "\<forall>(f, framed) \<in> set (framed_images sample_state). add_frame sample_image f = Inr framed"
    by (simp_all add: frame_names_def add_frame_opened_decoded[OF px])
  from keys obtain a b c where
    "framed_images sample_state = [(''Classic Wood'', a), (''Modern Black'', b), (''Silver Metal'', c)]"
    by (auto simp: map_eq_Cons_conv)
  with ent show ?thesis by simp
qed

text \<open>
  C7: two reachable session states in which the framed images are not those of the stored
  image. The handler stores the image before it builds the frames, and \<open>add_frame\<close>
  raises for a file that is cut short. In a fresh session that leaves the image stored
  and no framed image at all. In a session that holds the white image and its three
  frames, it leaves the new image stored with the three frames of the white image, while
  \<open>add_frame\<close> of the stored image gives no image for any style.
\<close>

theorem reachable_image_without_its_frames:
  "reachable (fst first_truncated) \<and>
   mandala_image (fst first_truncated) = Some truncated_image \<and>
   framed_images (fst first_truncated) = [] \<and>
   reachable (fst later_truncated) \<and>
   mandala_image (fst later_truncated) = Some truncated_image \<and>
   framed_images (fst later_truncated) = framed_images sample_state \<and>
   (\<exists>a b c. framed_images sample_state =
              [(''Classic Wood'', a), (''Modern Black'', b), (''Silver Metal'', c)] \<and>
      add_frame sample_image ''Classic Wood'' = Inr a \<and>
      add_frame sample_image ''Modern Black'' = Inr b \<and>
      add_frame sample_image ''Silver Metal'' = Inr c) \<and>
   add_frame_opened truncated_image f = Inl (OSError ''image file is truncated'')"
proof -
  have 1: "first_truncated =
      (init_state\<lparr>mandala_image := Some truncated_image\<rparr>,
       [ImageCreate ''sk-1'' \<lparr>model = ''dall-e-3'', prompt = create_mandala_prompt ''love'',
                        size = ''1024x1024'', quality = ''standard'', n = 1\<rparr>,
        HttpGet ''https://images.example/2.png''],
       Some (OSError ''image file is truncated''))"
    unfolding first_truncated_def by (rule script_run_truncated) simp_all
  have 2: "later_truncated =
      (sample_state\<lparr>mandala_image := Some truncated_image\<rparr>,
       [ImageCreate ''sk-1'' \<lparr>model = ''dall-e-3'', prompt = create_mandala_prompt ''joy'',
                        size = ''1024x1024'', quality = ''standard'', n = 1\<rparr>,
        HttpGet ''https://images.example/2.png''],
       Some (OSError ''image file is truncated''))"
    unfolding later_truncated_def by (rule script_run_truncated) simp_all
  have r1: "reachable (fst first_truncated)"
    using reachable_run[OF reachable_init, of "press_generate truncated_provider ''sk-1'' ''love''"
        "fst first_truncated" "fst (snd first_truncated)" "snd (snd first_truncated)"]
    by (simp add: first_truncated_def)
  have r2: "reachable (fst later_truncated)"
    using reachable_run[OF reachable_sample_state, of "press_generate truncated_provider ''sk-1'' ''joy''"
        "fst later_truncated" "fst (snd later_truncated)" "snd (snd later_truncated)"]
    by (simp add: later_truncated_def)
  have 3: "add_frame_opened truncated_image f = Inl (OSError ''image file is truncated'')"
    by (simp add: add_frame_opened_def image_copy_def truncated_image_def)
  show ?thesis
    using r1 r2 3 sample_state_entries by (simp add: 1 2 init_state_def)
qed

theorem failed_generation_keeps_state_witness:
  "\<exists>eff. sidebar (press_generate failing_provider ''sk-1'' ''joy'') sample_state = (sample_state, eff, None) \<and>
     StError ''Error generating image: quota exceeded'' \<in> set eff \<and>
     mandala_image (fst (script_run (press_generate failing_provider ''sk-1'' ''joy'') sample_state))
       = Some sample_opened \<and>
     framed_images (fst (script_run (press_generate failing_provider ''sk-1'' ''joy'') sample_state))
       = framed_images sample_state"
proof -
  let ?i = "press_generate failing_provider ''sk-1'' ''joy''"
  let ?req = "\<lparr>model = ''dall-e-3'', prompt = create_mandala_prompt ''joy'', size = ''1024x1024'',
                 quality = ''standard'', n = 1\<rparr>"
  let ?eff = "[ImageCreate ''sk-1'' ?req, st_error ''quota exceeded'']"
  have g: "generate_mandala_image (world ?i) (api_key ?i) (create_mandala_prompt (inspiration ?i))
       = (None, ?eff)"
    by (simp add: generate_mandala_image_def Let_def failing_provider_def press_generate_def)
  have b: "generate_button ?i" "inspiration ?i \<noteq> []" "api_key ?i \<noteq> []"
    by (simp_all add: press_generate_def)
  from failed_generation_keeps_state[OF g b, of sample_state]
  show ?thesis by (simp add: st_error_def sample_state_image)
qed

subsection \<open>Frame selection\<close>

lemma script_run_no_generate:
  "\<not> generate_button i \<Longrightarrow> script_run i s = main_area i s"
  by (simp add: script_run_idle)

lemma script_run_selected:
  "select_button i = None \<Longrightarrow> selected_frame (fst (script_run i s)) = selected_frame s"
proof -
  assume n: "select_button i = None"
  obtain s1 eff1 r1 where sb: "sidebar i s = (s1, eff1, r1)" by (cases "sidebar i s")
  with sidebar_selected[of i s] have "selected_frame s1 = selected_frame s" by simp
  with sb n show ?thesis
    by (cases r1) (simp_all add: script_run_state main_area_no_select)
qed

lemma main_area_select:
  assumes "select_button i = Some k" "k < length frame_options"
    and "mandala_image s \<noteq> None" "map_of (framed_images s) (selected_frame s) \<noteq> None"
  shows "fst (main_area i s) = s\<lparr>selected_frame := frame_options ! k\<rparr>"
  using assms by (auto simp: main_area_def Let_def split: option.splits)

text \<open>
  C8: the selected frame starts as Classic Wood; a run in which no select button is
  pressed leaves it as it is; a run without the generate button keeps the stored image
  and the framed images; and pressing the select button of a frame, with an image shown,
  gives the same session state with only the selected frame replaced by that frame.
\<close>

theorem selected_frame_only_by_selection:
  "selected_frame init_state = ''Classic Wood'' \<and>
   (select_button i = None \<longrightarrow> selected_frame (fst (script_run i s)) = selected_frame s) \<and>
   (\<not> generate_button i \<longrightarrow>
      mandala_image (fst (script_run i s)) = mandala_image s \<and>
      framed_images (fst (script_run i s)) = framed_images s) \<and>
   (\<not> generate_button i \<and> select_button i = Some k \<and> k < length frame_options \<and>
    mandala_image s \<noteq> None \<and> map_of (framed_images s) (selected_frame s) \<noteq> None \<longrightarrow>
      fst (script_run i s) = s\<lparr>selected_frame := frame_options ! k\<rparr>)"
  by (simp add: init_state_def script_run_selected script_run_no_generate main_area_keeps
      main_area_select)

lemma sample_state_selected: "selected_frame sample_state = ''Classic Wood''"
  by (simp add: sample_state_def script_run_selected press_generate_def init_state_def)

lemma sample_state_shown: "map_of (framed_images sample_state) (selected_frame sample_state) \<noteq> None"
proof -
  have "''Classic Wood'' \<in> set (map fst (framed_images sample_state))"
    by (simp add: sample_state_keys frame_names_def)
  then show ?thesis
    by (simp add: sample_state_selected map_of_eq_None_iff)
qed

theorem selected_frame_only_by_selection_witness:
  "fst (script_run (press_select 1) sample_state) = sample_state\<lparr>selected_frame := ''Modern Black''\<rparr> \<and>
   mandala_image (fst (script_run (press_select 1) sample_state)) = Some sample_opened \<and>
   framed_images (fst (script_run (press_select 1) sample_state)) = framed_images sample_state \<and>
   selected_frame (fst (script_run (plain_run ''love'' sample_time) sample_state)) = ''Classic Wood''"
proof -
  have a: "\<not> generate_button (press_select 1)" "select_button (press_select 1) = Some 1"
    "(1::nat) < length frame_options"
    by (simp_all add: press_select_def frame_options_def)
  have b: "mandala_image sample_state \<noteq> None" by (simp add: sample_state_image)
  have c: "select_button (plain_run ''love'' sample_time) = None" by (simp add: plain_run_def)
  from selected_frame_only_by_selection[of "press_select 1" sample_state 1] a b sample_state_shown
  have 1: "fst (script_run (press_select 1) sample_state) = sample_state\<lparr>selected_frame := frame_options ! 1\<rparr>"
    and 2: "mandala_image (fst (script_run (press_select 1) sample_state)) = mandala_image sample_state"
    and 3: "framed_images (fst (script_run (press_select 1) sample_state)) = framed_images sample_state"
    by blast+
  from selected_frame_only_by_selection[of "plain_run ''love'' sample_time" sample_state 0] c
  have 4: "selected_frame (fst (script_run (plain_run ''love'' sample_time) sample_state))
             = selected_frame sample_state" by blast
  show ?thesis using 1 2 3 4
    by (simp add: frame_options_def sample_state_image sample_state_selected)
qed

subsection \<open>The generate button\<close>

lemma sidebar_first_effect:
  assumes "generate_button i" "api_key i \<noteq> []" "inspiration i \<noteq> []"
  shows "\<exists>rest. fst (snd (sidebar i s)) =
           ImageCreate (api_key i)
             \<lparr>model = ''dall-e-3'', prompt = create_mandala_prompt (inspiration i),
              size = ''1024x1024'', quality = ''standard'', n = 1\<rparr> # rest"
  using assms
  by (auto simp: sidebar_def generate_mandala_image_def Let_def split: sum.splits)

lemma script_run_requests:
  "filter is_request (fst (snd (script_run i s))) = filter is_request (fst (snd (sidebar i s)))"
proof -
  obtain s1 eff1 r1 where sb: "sidebar i s = (s1, eff1, r1)" by (cases "sidebar i s")
  show ?thesis
  proof (cases r1)
    case None
    obtain s2 eff2 r2 where ma: "main_area i s1 = (s2, eff2, r2)" by (cases "main_area i s1")
    with main_area_no_request[of i s1] have "filter is_request eff2 = []" by simp
    with sb None ma show ?thesis by (simp add: script_run_def)
  next
    case (Some e)
    with sb show ?thesis by (simp add: script_run_def)
  qed
qed

text \<open>
  C10: when the access key or the inspiration word is empty, the handler of the generate
  button does nothing: no effect, no exception, the session state as it was, and the run
  sends no request and keeps the image, the framed images and the selected frame. A run
  sends a request only when the button is pressed and both strings are non-empty, and
  then its first effect is the request with the prompt built from the word.
\<close>

theorem generate_needs_key_and_word:
  "(api_key i = [] \<or> inspiration i = [] \<longrightarrow>
      sidebar i s = (s, [], None) \<and>
      filter is_request (fst (snd (script_run i s))) = [] \<and>
      mandala_image (fst (script_run i s)) = mandala_image s \<and>
      framed_images (fst (script_run i s)) = framed_images s \<and>
      selected_frame (fst (sidebar i s)) = selected_frame s \<and>
      (select_button i = None \<longrightarrow> fst (script_run i s) = s)) \<and>
   (filter is_request (fst (snd (script_run i s))) \<noteq> [] \<longrightarrow>
      generate_button i \<and> api_key i \<noteq> [] \<and> inspiration i \<noteq> []) \<and>
   (generate_button i \<and> api_key i \<noteq> [] \<and> inspiration i \<noteq> [] \<longrightarrow>
      (\<exists>rest. fst (snd (sidebar i s)) =
         ImageCreate (api_key i)
           \<lparr>model = ''dall-e-3'', prompt = create_mandala_prompt (inspiration i),
            size = ''1024x1024'', quality = ''standard'', n = 1\<rparr> # rest))"
proof -
  have idle: "sidebar i s = (s, [], None) \<and>
      filter is_request (fst (snd (script_run i s))) = [] \<and>
      mandala_image (fst (script_run i s)) = mandala_image s \<and>
      framed_images (fst (script_run i s)) = framed_images s \<and>
      selected_frame (fst (sidebar i s)) = selected_frame s \<and>
      (select_button i = None \<longrightarrow> fst (script_run i s) = s)"
    if "\<not> (generate_button i \<and> inspiration i \<noteq> [] \<and> api_key i \<noteq> [])"
    using that
    by (simp add: sidebar_idle script_run_idle main_area_keeps main_area_no_select
        main_area_no_request)
  have only: "generate_button i \<and> api_key i \<noteq> [] \<and> inspiration i \<noteq> []"
    if "filter is_request (fst (snd (script_run i s))) \<noteq> []"
  proof (rule ccontr)
    assume "\<not> ?thesis"
    then have "\<not> (generate_button i \<and> inspiration i \<noteq> [] \<and> api_key i \<noteq> [])" by blast
    from idle[OF this] that show False by simp
  qed
  show ?thesis using idle only sidebar_first_effect[of i s] by blast
qed

theorem generate_needs_key_and_word_witness:
  "sidebar (press_generate serving_provider ''sk-1'' []) sample_state = (sample_state, [], None) \<and>
   fst (script_run (press_generate serving_provider [] ''love'') sample_state) = sample_state \<and>
   filter is_request (fst (snd (script_run (press_generate serving_provider [] ''love'') sample_state))) = [] \<and>
   (\<exists>rest. fst (snd (sidebar (press_generate failing_provider ''sk-1'' ''love'') sample_state)) =
      ImageCreate ''sk-1''
        \<lparr>model = ''dall-e-3'', prompt = create_mandala_prompt ''love'',
         size = ''1024x1024'', quality = ''standard'', n = 1\<rparr> # rest)"
proof -
  have 1: "sidebar (press_generate serving_provider ''sk-1'' []) sample_state = (sample_state, [], None)"
    using generate_needs_key_and_word[of "press_generate serving_provider ''sk-1'' []" sample_state]
    by (simp add: press_generate_def)
  have 2: "fst (script_run (press_generate serving_provider [] ''love'') sample_state) = sample_state"
    "filter is_request (fst (snd (script_run (press_generate serving_provider [] ''love'') sample_state))) = []"
    using generate_needs_key_and_word[of "press_generate serving_provider [] ''love''" sample_state]
    by (simp_all add: press_generate_def)
  have 3: "\<exists>rest. fst (snd (sidebar (press_generate failing_provider ''sk-1'' ''love'') sample_state)) =
      ImageCreate ''sk-1''
        \<lparr>model = ''dall-e-3'', prompt = create_mandala_prompt ''love'',
         size = ''1024x1024'', quality = ''standard'', n = 1\<rparr> # rest"
    using generate_needs_key_and_word[of "press_generate failing_provider ''sk-1'' ''love''" sample_state]
    by (simp add: press_generate_def)
  show ?thesis using 1 2 3 by blast
qed

subsection \<open>The download link\<close>

lemma below_ten: "(m::nat) < 10 \<Longrightarrow> m \<in> {0, 1, 2, 3, 4, 5, 6, 7, 8, 9}"
  by auto

lemma is_digit_digit: "is_digit (digit d)"
proof -
  have "d mod 10 < length ''0123456789''" by simp
  then show ?thesis unfolding is_digit_def digit_def by (rule nth_mem)
qed

lemma digit_value_digit: "digit_value (digit d) = d mod 10"
proof -
  have "d mod 10 < 10" by simp
  from below_ten[OF this] show ?thesis
    unfolding digit_def digit_value_def by (elim insertE emptyE; simp)
qed

lemma decimal_pad2: "k < 100 \<Longrightarrow> decimal (pad2 k) = k"
proof -
  assume "k < 100"
  then have "k div 10 mod 10 = k div 10" by simp
  then show ?thesis by (simp add: decimal_def pad2_def digit_value_digit)
qed

lemma decimal_pad4: "k < 10000 \<Longrightarrow> decimal (pad4 k) = k"
proof -
  assume k: "k < 10000"
  define a where "a = k div 10"
  define b where "b = a div 10"
  define c where "c = b div 10"
  have b': "k div 100 = b" and c': "k div 1000 = c"
    by (simp_all add: a_def b_def c_def div_mult2_eq)
  from k have "c < 10" unfolding c' [symmetric] by simp
  then have 1: "10 * (c mod 10) + b mod 10 = b" by (simp add: c_def)
  have 2: "10 * b + a mod 10 = a" by (simp add: b_def)
  have 3: "10 * a + k mod 10 = k" by (simp add: a_def)
  have "decimal (pad4 k) = 10 * (10 * (10 * (c mod 10) + b mod 10) + a mod 10) + k mod 10"
    by (simp add: decimal_def pad4_def digit_value_digit b' c' a_def [symmetric])
  then show ?thesis by (simp only: 1 2 3)
qed

lemma main_area_links:
  "DownloadLink img fn lbl \<in> set (fst (snd (main_area i s))) \<Longrightarrow>
     fn = download_filename (inspiration i) (now i) \<and>
     map_of (framed_images s) (selected_frame s) = Some img"
  by (auto simp: main_area_def Let_def split: option.splits if_splits)

lemma sidebar_no_links:
  "DownloadLink img fn lbl \<notin> set (fst (snd (sidebar i s)))"
  by (auto simp: sidebar_def generate_mandala_image_def Let_def st_error_def
      split: sum.splits option.splits prod.splits)

lemma script_run_links:
  assumes "DownloadLink img fn lbl \<in> set (fst (snd (script_run i s)))"
  shows "fn = download_filename (inspiration i) (now i)"
proof -
  obtain s1 eff1 r1 where sb: "sidebar i s = (s1, eff1, r1)" by (cases "sidebar i s")
  with sidebar_no_links[of img fn lbl i s] have no: "DownloadLink img fn lbl \<notin> set eff1" by simp
  show ?thesis
  proof (cases r1)
    case None
    obtain s2 eff2 r2 where ma: "main_area i s1 = (s2, eff2, r2)" by (cases "main_area i s1")
    with assms sb None no have "DownloadLink img fn lbl \<in> set (fst (snd (main_area i s1)))"
      by (simp add: script_run_def)
    from main_area_links[OF this] show ?thesis by simp
  next
    case (Some e)
    with assms sb no show ?thesis by (simp add: script_run_def)
  qed
qed

text \<open>
  C9: for every inspiration word, the file name of the download link is \<open>mandala_\<close>,
  the word, an underscore, the time stamp and \<open>.png\<close>; the time stamp is eight digits,
  an underscore and six digits, which read as the year, month, day, hour, minute and
  second of the clock; and the file name of every link a run renders is built from the
  word and the clock of that run, the session state holding no time.
\<close>

theorem download_filename_pattern:
  assumes "valid_datetime t"
  shows "download_filename word t = ''mandala_'' @ word @ ''_'' @ strftime t @ ''.png'' \<and>
         length (strftime t) = 15 \<and> strftime t ! 8 = CHR ''_'' \<and>
         list_all is_digit (take 8 (strftime t)) \<and> list_all is_digit (drop 9 (strftime t)) \<and>
         decimal (take 4 (strftime t)) = year t \<and>
         decimal (take 2 (drop 4 (strftime t))) = month t \<and>
         decimal (take 2 (drop 6 (strftime t))) = day t \<and>
         decimal (take 2 (drop 9 (strftime t))) = hour t \<and>
         decimal (take 2 (drop 11 (strftime t))) = minute t \<and>
         decimal (take 2 (drop 13 (strftime t))) = second t \<and>
         (\<forall>i s img fn lbl. now i = t \<and> inspiration i = word \<and>
            DownloadLink img fn lbl \<in> set (fst (snd (script_run i s))) \<longrightarrow>
            fn = download_filename word t)"
proof -
  from assms have b: "year t < 10000" "month t < 100" "day t < 100" "hour t < 100"
    "minute t < 100" "second t < 100" by (simp_all add: valid_datetime_def)
  have shape: "strftime t = pad4 (year t) @ pad2 (month t) @ pad2 (day t) @ ''_'' @
     pad2 (hour t) @ pad2 (minute t) @ pad2 (second t)" by (simp add: strftime_def)
  have l: "length (pad4 (year t)) = 4" "length (pad2 k) = 2" for k
    by (simp_all add: pad4_def pad2_def)
  have d: "list_all is_digit (pad4 k)" "list_all is_digit (pad2 k)" for k
    by (simp_all add: pad4_def pad2_def is_digit_digit)
  have 1: "length (strftime t) = 15" by (simp add: shape l)
  have 2: "strftime t ! 8 = CHR ''_''" by (simp add: shape pad4_def pad2_def)
  have 3: "take 8 (strftime t) = pad4 (year t) @ pad2 (month t) @ pad2 (day t)"
    by (simp add: shape l)
  have 4: "drop 9 (strftime t) = pad2 (hour t) @ pad2 (minute t) @ pad2 (second t)"
    by (simp add: shape l)
  have 5: "take 4 (strftime t) = pad4 (year t)" "take 2 (drop 4 (strftime t)) = pad2 (month t)"
    "take 2 (drop 6 (strftime t)) = pad2 (day t)" "take 2 (drop 9 (strftime t)) = pad2 (hour t)"
    "take 2 (drop 11 (strftime t)) = pad2 (minute t)" "take 2 (drop 13 (strftime t)) = pad2 (second t)"
    by (simp_all add: shape l)
  have 6: "fn = download_filename word t"
    if "now i = t \<and> inspiration i = word \<and> DownloadLink img fn lbl \<in> set (fst (snd (script_run i s)))"
    for i s img fn lbl
    using script_run_links[of img fn lbl i s] that by simp
  have 7: "download_filename word t = ''mandala_'' @ word @ ''_'' @ strftime t @ ''.png''"
    by (simp add: download_filename_def)
  have 8: "list_all is_digit (take 8 (strftime t))" "list_all is_digit (drop 9 (strftime t))"
    unfolding 3 4 by (simp_all add: d)
  have 9: "decimal (take 4 (strftime t)) = year t"
    "decimal (take 2 (drop 4 (strftime t))) = month t"
    "decimal (take 2 (drop 6 (strftime t))) = day t"
    "decimal (take 2 (drop 9 (strftime t))) = hour t"
    "decimal (take 2 (drop 11 (strftime t))) = minute t"
    "decimal (take 2 (drop 13 (strftime t))) = second t"
    unfolding 5 using b by (simp_all only: decimal_pad2 decimal_pad4)
  from 6 have 10: "\<forall>i s img fn lbl. now i = t \<and> inspiration i = word \<and>
            DownloadLink img fn lbl \<in> set (fst (snd (script_run i s))) \<longrightarrow>
            fn = download_filename word t" by blast
  show ?thesis
    by (intro conjI) (rule 7 1 2 8 9 10)+
qed

theorem download_filename_pattern_witness:
  "download_filename ''love'' sample_time = ''mandala_love_20250105_090307.png'' \<and>
   (\<exists>img. DownloadLink img ''mandala_love_20250105_090307.png'' ''Download Mandala''
            \<in> set (fst (snd (script_run (plain_run ''love'' sample_time) sample_state))))"
proof -
  have v: "valid_datetime sample_time" by (simp add: valid_datetime_def sample_time_def)
  have s: "strftime sample_time = ''20250105_090307''"
    by (simp add: strftime_def sample_time_def pad4_def pad2_def digit_def)
  from download_filename_pattern[OF v, of "''love''"]
  have f: "download_filename ''love'' sample_time = ''mandala_love_20250105_090307.png''"
    by (simp add: s)
  from sample_state_shown obtain img
    where img: "map_of (framed_images sample_state) (selected_frame sample_state) = Some img" by blast
  have "script_run (plain_run ''love'' sample_time) sample_state
      = main_area (plain_run ''love'' sample_time) sample_state"
    by (simp add: script_run_idle plain_run_def)
  then have "DownloadLink img (download_filename ''love'' sample_time) ''Download Mandala''
      \<in> set (fst (snd (script_run (plain_run ''love'' sample_time) sample_state)))"
    by (simp add: main_area_def Let_def sample_state_image img plain_run_def)
  with f show ?thesis by auto
qed

end
